theory Spec2Isabelle
  imports Main "HOL-Library.Sublist"
begin

section \<open>Describing Trends with GPT-3: the notebook as a state-passing program\<close>

text \<open>
  The repository is one Jupyter notebook (\<^verbatim>\<open>2022-03-gpt-trends/Notebook.ipynb\<close>, with a
  Markdown rendering of the same cells). Its code cells are numbered by their
  \<^verbatim>\<open>execution_count\<close>, 1 to 9:
  \<^item> cell 1 reads the credential: \<^verbatim>\<open>openai.api_key = os.getenv("OPENAI_API_KEY")\<close>;
  \<^item> cell 2 sends the smoke-test request and prints the whole response;
  \<^item> cells 3 to 9 each send one request whose prompt is a string literal and print
    \<^verbatim>\<open>response["choices"][0]["text"]\<close>.
  The remote completion service and the library's rendering of a response object are
  not part of the repository; they are parameters of the model.
\<close>

subsection \<open>Data model\<close>

definition nl :: string where
  "nl = [CHR 0x0A]"

text \<open>The keyword arguments of \<^verbatim>\<open>openai.Completion.create\<close>.\<close>

record completion_request =
  engine :: string
  prompt :: string
  temperature :: int
  max_tokens :: int

text \<open>
  One element of \<^verbatim>\<open>response["choices"]\<close>, with the keys of the transcript of cell 2
  (\<^verbatim>\<open>"text"\<close> is the field \<open>choice_text\<close>, \<^verbatim>\<open>"index"\<close> the field \<open>choice_index\<close>;
  \<^verbatim>\<open>"logprobs"\<close> is \<^verbatim>\<open>null\<close> there and kept as an opaque optional value).
  A response is taken to have the keys of the provider's schema; what the schema
  leaves open is the number of candidates, which may be zero.
\<close>

record choice =
  finish_reason :: string
  choice_index :: int
  logprobs :: "string option"
  choice_text :: string

record completion_response =
  choices :: "choice list"
  created :: int
  response_id :: string
  model :: string
  object :: string

text \<open>
  Exceptions. \<open>IndexError\<close> is Python's own, raised by \<^verbatim>\<open>[0]\<close> on an empty list.
  \<open>ApiError\<close> stands for whatever \<^verbatim>\<open>openai.Completion.create\<close> raises; the kinds are
  those a caller can tell apart.
\<close>

datatype api_failure = Transport | Authentication | RateLimit | OtherFailure string

datatype pyexc = IndexError | ApiError api_failure

text \<open>
  The remote service as the notebook sees it through the library: given the requests
  sent so far, the credential currently stored in \<^verbatim>\<open>openai.api_key\<close> and the request,
  it answers with a response or the call raises.
\<close>

type_synonym endpoint =
  "completion_request list \<Rightarrow> string option \<Rightarrow> completion_request \<Rightarrow> api_failure + completion_response"

text \<open>
  The state of the Python process: the environment, the module attribute
  \<^verbatim>\<open>openai.api_key\<close>, the notebook's global \<^verbatim>\<open>response\<close> (\<open>None\<close> while unbound), and
  three traces of its effects: the environment variables read, the requests handed
  to \<^verbatim>\<open>openai.Completion.create\<close> (one entry for each call), and the characters
  written to standard output.
\<close>

record world =
  environ :: "string \<Rightarrow> string option"
  api_key :: "string option"
  response :: "completion_response option"
  env_reads :: "string list"
  sent :: "completion_request list"
  stdout :: string

subsection \<open>Primitive operations\<close>

text \<open>\<^verbatim>\<open>os.getenv(k)\<close>: the value, or \<^verbatim>\<open>None\<close> when the variable is not set; it never raises.\<close>

definition os_getenv :: "string \<Rightarrow> world \<Rightarrow> string option \<times> world" where
  "os_getenv k w = (environ w k, w\<lparr>env_reads := env_reads w @ [k]\<rparr>)"

text \<open>
  \<^verbatim>\<open>openai.Completion.create(...)\<close>: one blocking call of the library, which answers or
  raises. The trace \<open>sent\<close> records the call, not what the library puts on the wire
  for it.
\<close>

definition Completion_create ::
  "endpoint \<Rightarrow> completion_request \<Rightarrow> world \<Rightarrow> (pyexc + completion_response) \<times> world" where
  "Completion_create ep req w =
     (case ep (sent w) (api_key w) req of
        Inl f \<Rightarrow> (Inl (ApiError f), w\<lparr>sent := sent w @ [req]\<rparr>)
      | Inr r \<Rightarrow> (Inr r, w\<lparr>sent := sent w @ [req]\<rparr>))"

text \<open>\<^verbatim>\<open>print(s)\<close> for a string \<open>s\<close>: the string, then a newline.\<close>

definition print :: "string \<Rightarrow> world \<Rightarrow> world" where
  "print s w = w\<lparr>stdout := stdout w @ s @ nl\<rparr>"

text \<open>The expression \<^verbatim>\<open>response["choices"][0]["text"]\<close>.\<close>

definition result_extractor :: "completion_response \<Rightarrow> pyexc + string" where
  "result_extractor r =
     (case choices r of [] \<Rightarrow> Inl IndexError | c # _ \<Rightarrow> Inr (choice_text c))"

subsection \<open>The prompts and requests of the code cells\<close>

text \<open>
  Each prompt is the string literal of its cell, character for character; a
  triple-quoted literal keeps its line breaks, the last one included. Every request
  carries the keyword arguments written in its cell.
\<close>

definition prompt_2 :: string where
  "prompt_2 =
     ''Say this is a test''"

definition request_2 :: completion_request where
  "request_2 =
     \<lparr>engine = ''text-davinci-002'', prompt = prompt_2, temperature = 0, max_tokens = 6\<rparr>"

definition prompt_3 :: string where
  "prompt_3 =
     ''Summarize the trend of the list of numbers 132, 329, 583, 743, 966, 1123, 1298 in one sentence''"

definition request_3 :: completion_request where
  "request_3 =
     \<lparr>engine = ''text-davinci-002'', prompt = prompt_3, temperature = 0, max_tokens = 36\<rparr>"

definition prompt_4 :: string where
  "prompt_4 =
     ''Summarize the trend of the list of numbers in one sentence'' @ nl @
     nl @
     ''Numbers: 132, 329, 583, 743, 966, 1123, 1298'' @ nl @
     ''Trend: The numbers increase steadily from just over 100 to almost 1300.'' @ nl @
     nl @
     ''Numbers: 300, 323, 293, 313, 341, 301, 329'' @ nl @
     ''Trend: The numbers fluctuate between 293 and 341.'' @ nl @
     nl @
     ''Numbers: 99, 97, 96, 90, 87, 83, 82'' @ nl @
     ''Trend: '' @ nl"

definition request_4 :: completion_request where
  "request_4 =
     \<lparr>engine = ''text-davinci-002'', prompt = prompt_4, temperature = 0, max_tokens = 36\<rparr>"

definition prompt_5 :: string where
  "prompt_5 =
     ''Summarize the trend of the list of numbers in one sentence'' @ nl @
     nl @
     ''Numbers: 132, 329, 583, 743, 966, 1123, 1298'' @ nl @
     ''Trend: The numbers increase steadily from just over 100 to almost 1300.'' @ nl @
     nl @
     ''Numbers: 300, 323, 293, 313, 341, 301, 329'' @ nl @
     ''Trend: The numbers fluctuate between 293 and 341.'' @ nl @
     nl @
     ''Numbers: 55, 54, 57, 5643, 56, 55, 54'' @ nl @
     ''Trend: '' @ nl"

definition request_5 :: completion_request where
  "request_5 =
     \<lparr>engine = ''text-davinci-002'', prompt = prompt_5, temperature = 0, max_tokens = 36\<rparr>"

definition prompt_6 :: string where
  "prompt_6 =
     ''Summarize the trend of the list of numbers in one sentence'' @ nl @
     nl @
     ''Numbers: 132, 329, 583, 743, 966, 1123, 1298'' @ nl @
     ''Trend: The numbers increase steadily from just over 100 on Monday to almost 1300 on Sunday.'' @ nl @
     nl @
     ''Numbers: 300, 323, 293, 313, 341, 301, 329'' @ nl @
     ''Trend: The numbers fluctuate between 293 and 341.'' @ nl @
     nl @
     ''Numbers: 55, 54, 57, 5643, 56, 55, 54'' @ nl @
     ''Trend: '' @ nl"

definition request_6 :: completion_request where
  "request_6 =
     \<lparr>engine = ''text-davinci-002'', prompt = prompt_6, temperature = 0, max_tokens = 36\<rparr>"

definition prompt_7 :: string where
  "prompt_7 =
     ''Summarize the trend of the list of numbers in one sentence'' @ nl @
     nl @
     ''Numbers: 132, 329, 583, 743, 966, 1123, 1298'' @ nl @
     ''Trend: The numbers increase steadily from just over 100 on Monday to almost 1300 on Sunday.'' @ nl @
     nl @
     ''Numbers: 300, 323, 293, 313, 341, 301, 329'' @ nl @
     ''Trend: The numbers fluctuate between 293 and 341 all week.'' @ nl @
     nl @
     ''Numbers: 7, 8, 11, 9, 218, 8, 8'' @ nl @
     ''Trend: The numbers fluctuate between 7 and 11 all week, wih one outlier at 218 on Friday.'' @ nl @
     nl @
     ''Numbers: 55, 54, 57, 5643, 56, 55, 54'' @ nl @
     ''Trend: '' @ nl"

definition request_7 :: completion_request where
  "request_7 =
     \<lparr>engine = ''text-davinci-002'', prompt = prompt_7, temperature = 0, max_tokens = 36\<rparr>"

definition prompt_8 :: string where
  "prompt_8 =
     ''Summarize the trend of the daily list of numbers in one sentence'' @ nl @
     nl @
     ''Numbers: M: 132, T: 329, W: 583, T: 743, F: 966, S: 1123, S: 1298'' @ nl @
     ''Trend: The numbers increase steadily from just over 100 on Monday to almost 1300 on Sunday.'' @ nl @
     nl @
     ''Numbers: M: 300, T: 323, W: 293, T: 313, F: 341, S: 301, S: 329'' @ nl @
     ''Trend: The numbers fluctuate between 293 and 341 all week.'' @ nl @
     nl @
     ''Numbers: M: 7, T: 8, W: 11, T: 9, F: 218, S: 8, S: 8'' @ nl @
     ''Trend: The numbers fluctuate between 7 and 11 all week, wih one outlier at 218 on Friday.'' @ nl @
     nl @
     ''Numbers: M: 55, T: 54, W: 57, T: 5643, F: 56, S: 55, S: 54'' @ nl @
     ''Trend: '' @ nl"

definition request_8 :: completion_request where
  "request_8 =
     \<lparr>engine = ''text-davinci-002'', prompt = prompt_8, temperature = 0, max_tokens = 36\<rparr>"

definition prompt_9 :: string where
  "prompt_9 =
     ''Summarize the trend of the daily list of numbers in one sentence'' @ nl @
     nl @
     ''Numbers: M: 132, T: 329, W: 583, T: 743, F: 966, S: 1123, S: 1298'' @ nl @
     ''Trend: The numbers increase steadily from just over 100 on Monday to almost 1300 on Sunday.'' @ nl @
     nl @
     ''Numbers: M: 300, T: 323, W: 293, T: 313, F: 341, S: 301, S: 329'' @ nl @
     ''Trend: The numbers fluctuate between 293 and 341 all week.'' @ nl @
     nl @
     ''Numbers: M: 7, T: 8, W: 11, T: 9, F: 218, S: 8, S: 8'' @ nl @
     ''Trend: The numbers fluctuate between 7 and 11 all week, wih one outlier at 218 on Friday.'' @ nl @
     nl @
     ''Numbers: M: 37465, T: 52374, W: 39809, T: 30885, F: 44325, S: 230, S: 223'' @ nl @
     ''Trend: '' @ nl"

definition request_9 :: completion_request where
  "request_9 =
     \<lparr>engine = ''text-davinci-002'', prompt = prompt_9, temperature = 0, max_tokens = 36\<rparr>"

subsection \<open>The code cells\<close>

text \<open>
  A cell runs in the process state and either completes or stops at the first
  exception, which nothing in the notebook catches.
\<close>

type_synonym cell = "world \<Rightarrow> (pyexc + unit) \<times> world"

text \<open>
  Cell 1: \<^verbatim>\<open>openai.api_key = os.getenv("OPENAI_API_KEY")\<close>, after three imports that
  are taken to succeed. The result of \<^verbatim>\<open>os.getenv\<close> is stored unchecked.
\<close>

definition cell1 :: cell where
  "cell1 w =
     (case os_getenv ''OPENAI_API_KEY'' w of (v, w') \<Rightarrow> (Inr (), w'\<lparr>api_key := v\<rparr>))"

text \<open>
  Cell 2: \<^verbatim>\<open>response = openai.Completion.create(...)\<close>, then \<^verbatim>\<open>print(response)\<close>. The text
  that the library gives for a whole response object is the parameter \<open>str\<close>.
\<close>

definition cell2 :: "endpoint \<Rightarrow> (completion_response \<Rightarrow> string) \<Rightarrow> cell" where
  "cell2 ep str w =
     (case Completion_create ep request_2 w of
        (Inl e, w') \<Rightarrow> (Inl e, w')
      | (Inr r, w') \<Rightarrow> (Inr (), print (str r) (w'\<lparr>response := Some r\<rparr>)))"

text \<open>
  Cells 3 to 9 have one shape: \<^verbatim>\<open>response = openai.Completion.create(...)\<close>, then
  \<^verbatim>\<open>print(response["choices"][0]["text"])\<close>. The assignment happens only when the call
  returns, and the argument of \<^verbatim>\<open>print\<close> is evaluated before anything is written.
\<close>

definition trend_cell :: "endpoint \<Rightarrow> completion_request \<Rightarrow> cell" where
  "trend_cell ep req w =
     (case Completion_create ep req w of
        (Inl e, w') \<Rightarrow> (Inl e, w')
      | (Inr r, w') \<Rightarrow>
          (case result_extractor r of
             Inl e \<Rightarrow> (Inl e, w'\<lparr>response := Some r\<rparr>)
           | Inr t \<Rightarrow> (Inr (), print t (w'\<lparr>response := Some r\<rparr>))))"

definition cell3 :: "endpoint \<Rightarrow> cell" where
  "cell3 ep = trend_cell ep request_3"

definition cell4 :: "endpoint \<Rightarrow> cell" where
  "cell4 ep = trend_cell ep request_4"

definition cell5 :: "endpoint \<Rightarrow> cell" where
  "cell5 ep = trend_cell ep request_5"

definition cell6 :: "endpoint \<Rightarrow> cell" where
  "cell6 ep = trend_cell ep request_6"

definition cell7 :: "endpoint \<Rightarrow> cell" where
  "cell7 ep = trend_cell ep request_7"

definition cell8 :: "endpoint \<Rightarrow> cell" where
  "cell8 ep = trend_cell ep request_8"

definition cell9 :: "endpoint \<Rightarrow> cell" where
  "cell9 ep = trend_cell ep request_9"

text \<open>Running cells in order stops at the first one that raises.\<close>

fun run_cells :: "cell list \<Rightarrow> cell" where
  "run_cells [] w = (Inr (), w)"
| "run_cells (c # cs) w =
     (case c w of (Inl e, w') \<Rightarrow> (Inl e, w') | (Inr _, w') \<Rightarrow> run_cells cs w')"

definition notebook :: "endpoint \<Rightarrow> (completion_response \<Rightarrow> string) \<Rightarrow> cell list" where
  "notebook ep str =
     [cell1, cell2 ep str, cell3 ep, cell4 ep, cell5 ep, cell6 ep, cell7 ep, cell8 ep, cell9 ep]"

definition run_all :: "endpoint \<Rightarrow> (completion_response \<Rightarrow> string) \<Rightarrow> cell" where
  "run_all ep str = run_cells (notebook ep str)"

text \<open>The requests of the cells 2 to 9, in the order of the notebook.\<close>

definition notebook_requests :: "completion_request list" where
  "notebook_requests =
     [request_2, request_3, request_4, request_5, request_6, request_7, request_8, request_9]"

subsection \<open>Outbound traffic\<close>

text \<open>
  The notebook never touches the network itself. How many times the library transmits
  a request for one call of \<^verbatim>\<open>openai.Completion.create\<close> is the library's matter: it may
  send nothing (when it finds no credential), once, or again after a connection
  failure. That number, for the credential stored at the time of the call and the
  request, is a parameter; the traffic between two states of the process is what the
  library transmits for the calls made between them.
\<close>

type_synonym transmissions = "string option \<Rightarrow> completion_request \<Rightarrow> nat"

definition outbound :: "transmissions \<Rightarrow> world \<Rightarrow> world \<Rightarrow> completion_request list" where
  "outbound tx w w' =
     concat (map (\<lambda>q. replicate (tx (api_key w) q) q) (drop (length (sent w)) (sent w')))"

subsection \<open>Vocabulary of the properties\<close>

text \<open>
  The notebook holds every series as text inside a prompt. To say which numbers a
  prompt shows, and with which day letters, the properties use Python's decimal
  notation of a natural number (\<^verbatim>\<open>str(n)\<close>), Python's \<^verbatim>\<open>sep.join(...)\<close>, and the
  rendering of a series with the letters of the week, as the cells 8 and 9 write it:
  each letter, a colon and a space, then the number of that day.
\<close>

fun decimal :: "nat \<Rightarrow> string" where
  "decimal n =
     (if n < 10 then [''0123456789'' ! n]
      else decimal (n div 10) @ [''0123456789'' ! (n mod 10)])"

declare decimal.simps [simp del]

fun join :: "string \<Rightarrow> string list \<Rightarrow> string" where
  "join sep [] = []"
| "join sep [x] = x"
| "join sep (x # y # ys) = x @ sep @ join sep (y # ys)"

definition day_letters :: string where
  "day_letters = ''MTWTFSS''"

definition labelled :: "char \<Rightarrow> nat \<Rightarrow> string" where
  "labelled d n = d # '': '' @ decimal n"

definition day_labelled_series :: "nat list \<Rightarrow> string" where
  "day_labelled_series ns = join '', '' (map2 labelled day_letters ns)"

subsection \<open>Test doubles\<close>

text \<open>
  The response printed in the transcript of cell 2, and a service that always answers
  with it.
\<close>

definition stub_response :: completion_response where
  "stub_response =
     \<lparr>choices = [\<lparr>finish_reason = ''length'', choice_index = 0, logprobs = None,
                   choice_text = nl @ nl @ ''This is a test''\<rparr>],
      created = 1648109397,
      response_id = ''cmpl-4pCpZBRGMXui3G1jJKJRo62DsOK2y'',
      model = ''text-davinci:002'',
      object = ''text_completion''\<rparr>"

definition stub_endpoint :: endpoint where
  "stub_endpoint = (\<lambda>_ _ _. Inr stub_response)"

text \<open>A service for which every call fails in the same way.\<close>

definition failing_endpoint :: "api_failure \<Rightarrow> endpoint" where
  "failing_endpoint f = (\<lambda>_ _ _. Inl f)"

text \<open>A service that answers every call with a response that has no candidate.\<close>

definition empty_endpoint :: endpoint where
  "empty_endpoint = (\<lambda>_ _ _. Inr (stub_response\<lparr>choices := []\<rparr>))"

text \<open>A service that rejects a call made without a credential.\<close>

definition keyed_endpoint :: endpoint where
  "keyed_endpoint =
     (\<lambda>_ key _. case key of None \<Rightarrow> Inl Authentication | Some _ \<Rightarrow> Inr stub_response)"

text \<open>A library that transmits a request once if it has a credential, and not at all otherwise.\<close>

definition key_checking_transmissions :: transmissions where
  "key_checking_transmissions = (\<lambda>key _. case key of None \<Rightarrow> 0 | Some _ \<Rightarrow> 1)"

text \<open>A fresh process whose environment has no variable set.\<close>

definition bare_world :: world where
  "bare_world =
     \<lparr>environ = (\<lambda>_. None), api_key = None, response = None,
      env_reads = [], sent = [], stdout = []\<rparr>"

section \<open>Properties\<close>

subsection \<open>Effects of one cell and of a run\<close>

lemma trend_cell_sent: "sent (snd (trend_cell ep req w)) = sent w @ [req]"
  by (simp add: trend_cell_def Completion_create_def print_def split: sum.splits prod.splits)

lemma trend_cell_env_reads: "env_reads (snd (trend_cell ep req w)) = env_reads w"
  by (simp add: trend_cell_def Completion_create_def print_def split: sum.splits prod.splits)

lemma trend_cell_api_key: "api_key (snd (trend_cell ep req w)) = api_key w"
  by (simp add: trend_cell_def Completion_create_def print_def split: sum.splits prod.splits)

lemma cell2_sent: "sent (snd (cell2 ep str w)) = sent w @ [request_2]"
  by (simp add: cell2_def Completion_create_def print_def split: sum.splits prod.splits)

lemma cell2_env_reads: "env_reads (snd (cell2 ep str w)) = env_reads w"
  by (simp add: cell2_def Completion_create_def print_def split: sum.splits prod.splits)

lemma cell2_api_key: "api_key (snd (cell2 ep str w)) = api_key w"
  by (simp add: cell2_def Completion_create_def print_def split: sum.splits prod.splits)

lemma cell1_eq:
  "cell1 w = (Inr (), w\<lparr>env_reads := env_reads w @ [''OPENAI_API_KEY''],
                          api_key := environ w ''OPENAI_API_KEY''\<rparr>)"
  by (simp add: cell1_def os_getenv_def)

lemma trend_cell_cases:
  "sent (snd (trend_cell ep q w)) = sent w @ [q] \<and>
   outbound tx w (snd (trend_cell ep q w)) = replicate (tx (api_key w) q) q \<and>
   (ep (sent w) (api_key w) q = Inl f \<longrightarrow>
      trend_cell ep q w = (Inl (ApiError f), w\<lparr>sent := sent w @ [q]\<rparr>)) \<and>
   (ep (sent w) (api_key w) q = Inr r \<and> choices r = [] \<longrightarrow>
      trend_cell ep q w = (Inl IndexError, w\<lparr>sent := sent w @ [q], response := Some r\<rparr>)) \<and>
   (fst (trend_cell ep q w) = Inl e \<longrightarrow>
      stdout (snd (trend_cell ep q w)) = stdout w \<and>
      ((\<exists>f'. e = ApiError f' \<and> ep (sent w) (api_key w) q = Inl f') \<or>
       e = IndexError \<and> (\<exists>r'. ep (sent w) (api_key w) q = Inr r' \<and> choices r' = [])))"
  by (auto simp add: trend_cell_def Completion_create_def result_extractor_def print_def
      outbound_def split: sum.splits list.splits)

lemma cell2_cases:
  "sent (snd (cell2 ep str w)) = sent w @ [request_2] \<and>
   outbound tx w (snd (cell2 ep str w)) = replicate (tx (api_key w) request_2) request_2 \<and>
   (ep (sent w) (api_key w) request_2 = Inl f \<longrightarrow>
      cell2 ep str w = (Inl (ApiError f), w\<lparr>sent := sent w @ [request_2]\<rparr>)) \<and>
   (ep (sent w) (api_key w) request_2 = Inr r \<longrightarrow>
      cell2 ep str w =
        (Inr (), w\<lparr>sent := sent w @ [request_2], response := Some r,
                   stdout := stdout w @ str r @ nl\<rparr>)) \<and>
   (fst (cell2 ep str w) = Inl e \<longrightarrow>
      stdout (snd (cell2 ep str w)) = stdout w \<and>
      (\<exists>f'. e = ApiError f' \<and> ep (sent w) (api_key w) request_2 = Inl f'))"
  by (auto simp add: cell2_def Completion_create_def print_def outbound_def split: sum.splits)

lemma run_cells_preserves:
  "(\<And>c w. c \<in> set cs \<Longrightarrow> g (snd (c w)) = g w) \<Longrightarrow> g (snd (run_cells cs w)) = g w"
proof (induction cs arbitrary: w)
  case Nil
  show ?case by simp
next
  case (Cons c cs)
  have step: "g (snd (c w)) = g w" using Cons.prems by simp
  show ?case
  proof (cases "c w")
    case (Pair res w')
    with step have w': "g w' = g w" by simp
    show ?thesis
    proof (cases res)
      case (Inl e)
      with Pair w' show ?thesis by simp
    next
      case (Inr u)
      have "g (snd (run_cells cs w')) = g w'"
        using Cons.IH Cons.prems by simp
      with Pair Inr w' show ?thesis by simp
    qed
  qed
qed

lemma run_cells_trace:
  "list_all2 (\<lambda>c xs. \<forall>w. f (snd (c w)) = f w @ xs) cs xss \<Longrightarrow>
   \<exists>n\<le>length cs. f (snd (run_cells cs w)) = f w @ concat (take n xss)"
proof (induction cs xss arbitrary: w rule: list_all2_induct)
  case Nil
  show ?case by simp
next
  case (Cons c cs xs xss)
  obtain res w' where cw: "c w = (res, w')" by (cases "c w")
  with Cons.hyps(1) have w': "f w' = f w @ xs" by (metis snd_conv)
  show ?case
  proof (cases res)
    case (Inl e)
    with cw w' have "f (snd (run_cells (c # cs) w)) = f w @ concat (take 1 (xs # xss))"
      by simp
    then show ?thesis by (intro exI[of _ 1]) simp
  next
    case (Inr u)
    from Cons.IH[of w'] obtain n where n: "n \<le> length cs"
      "f (snd (run_cells cs w')) = f w' @ concat (take n xss)" by blast
    with cw Inr w' have "f (snd (run_cells (c # cs) w)) = f w @ concat (take (Suc n) (xs # xss))"
      by simp
    with n(1) show ?thesis by (intro exI[of _ "Suc n"]) simp
  qed
qed

lemma run_all_sent:
  "\<exists>n. sent (snd (run_all ep str w)) =
     sent w @ take n [request_2, request_3, request_4, request_5, request_6, request_7,
                      request_8, request_9]"
proof -
  let ?xss = "[[], [request_2], [request_3], [request_4], [request_5], [request_6],
               [request_7], [request_8], [request_9]]"
  have "list_all2 (\<lambda>c xs. \<forall>w. sent (snd (c w)) = sent w @ xs) (notebook ep str) ?xss"
    by (simp add: notebook_def cell1_eq cell2_sent trend_cell_sent
        cell3_def cell4_def cell5_def cell6_def cell7_def cell8_def cell9_def)
  from run_cells_trace [OF this, of w]
  obtain n where n: "n \<le> length (notebook ep str)"
    and s: "sent (snd (run_all ep str w)) = sent w @ concat (take n ?xss)"
    unfolding run_all_def by blast
  from n have "n \<in> {0, 1, 2, 3, 4, 5, 6, 7, 8, 9}"
    by (auto simp add: notebook_def)
  then have "concat (take n ?xss) =
     take (n - 1) [request_2, request_3, request_4, request_5, request_6, request_7,
                   request_8, request_9]"
    by (elim insertE emptyE) simp_all
  with s show ?thesis by metis
qed

lemma requests_parameters:
  "r \<in> set [request_2, request_3, request_4, request_5, request_6, request_7, request_8, request_9]
   \<Longrightarrow> engine r = ''text-davinci-002'' \<and> temperature r = 0 \<and>
       max_tokens r = (if r = request_2 then 6 else 36)"
proof -
  have "list_all (\<lambda>r. engine r = ''text-davinci-002'' \<and> temperature r = 0 \<and>
       max_tokens r = (if r = request_2 then 6 else 36))
     [request_2, request_3, request_4, request_5, request_6, request_7, request_8, request_9]"
    by (simp add: request_2_def request_3_def request_4_def request_5_def request_6_def
        request_7_def request_8_def request_9_def prompt_2_def prompt_3_def prompt_4_def
        prompt_5_def prompt_6_def prompt_7_def prompt_8_def prompt_9_def)
  then show "r \<in> set [request_2, request_3, request_4, request_5, request_6, request_7, request_8, request_9]
   \<Longrightarrow> engine r = ''text-davinci-002'' \<and> temperature r = 0 \<and>
       max_tokens r = (if r = request_2 then 6 else 36)"
    unfolding list_all_iff by blast
qed

lemma run_all_stub:
  "sent (snd (run_all stub_endpoint (\<lambda>_. []) bare_world)) =
     [request_2, request_3, request_4, request_5, request_6, request_7, request_8, request_9]"
  by (simp add: run_all_def notebook_def cell1_eq cell2_def trend_cell_def Completion_create_def
      stub_endpoint_def stub_response_def result_extractor_def print_def bare_world_def
      cell3_def cell4_def cell5_def cell6_def cell7_def cell8_def cell9_def)

section \<open>The result extractor\<close>

text \<open>
  C1 (as found in the code). The extractor returns the first candidate's text as it is;
  no whitespace is trimmed. For the stubbed response whose first candidate text is two
  newlines and then "This is a test", the extracted value is that very string, and a
  cell of the shape of cells 3 to 9 run against the stub writes the two empty lines,
  the text and the newline of \<^verbatim>\<open>print\<close>.
\<close>

theorem result_extractor_keeps_whitespace:
  "result_extractor stub_response = Inr (nl @ nl @ ''This is a test'') \<and>
   fst (trend_cell stub_endpoint req w) = Inr () \<and>
   stdout (snd (trend_cell stub_endpoint req w)) = stdout w @ nl @ nl @ ''This is a test'' @ nl"
  by (simp add: result_extractor_def stub_response_def trend_cell_def Completion_create_def
      stub_endpoint_def print_def)

text \<open>
  C1 as stated fails: on the stubbed response the extracted value is not the trimmed
  text "This is a test".
\<close>

theorem result_extractor_trim_counterexample:
  "result_extractor stub_response \<noteq> Inr ''This is a test''"
  by (simp add: result_extractor_def stub_response_def nl_def)

text \<open>
  C2. For every response with at least one candidate, the extracted value is exactly the
  text field of the candidate at index 0: it does not depend on the candidates after
  it, nor on any other field of the response or of the first candidate.
\<close>

theorem result_extractor_first:
  "result_extractor (r\<lparr>choices := c # cs\<rparr>) = Inr (choice_text c)"
  by (simp add: result_extractor_def)

text \<open>
  C3. On a response whose candidate list is empty the extractor raises: the result is
  the exception \<open>IndexError\<close> of \<^verbatim>\<open>[0]\<close>, never a value. The condition is distinct:
  the extractor raises nothing else, and raises only on an empty list. A cell that
  receives such a response stops with that exception and prints nothing.
\<close>

theorem result_extractor_empty:
  "result_extractor (r\<lparr>choices := []\<rparr>) = Inl IndexError \<and>
   (result_extractor r' = Inl e) = (choices r' = [] \<and> e = IndexError) \<and>
   trend_cell (\<lambda>_ _ _. Inr (r\<lparr>choices := []\<rparr>)) req w =
     (Inl IndexError, w\<lparr>sent := sent w @ [req], response := Some (r\<lparr>choices := []\<rparr>)\<rparr>)"
  by (auto simp add: result_extractor_def trend_cell_def Completion_create_def split: list.splits)

section \<open>The prompts\<close>

text \<open>
  C4 (as found in the code). The prompt that shows no example, for the series
  132, 329, 583, 743, 966, 1123, 1298, is the literal of cell 3. It contains the
  substring "132, 329, 583, 743, 966, 1123, 1298", the numbers being the decimal
  notations of the series joined by a comma and a space; the series sits inside the
  instruction sentence, and the prompt ends with " in one sentence". The label "Trend:"
  does not occur in it.
\<close>

theorem zero_example_prompt:
  "sublist ''132, 329, 583, 743, 966, 1123, 1298'' prompt_3 \<and>
   prompt_3 = ''Summarize the trend of the list of numbers '' @
     join '', '' (map decimal [132, 329, 583, 743, 966, 1123, 1298]) @ '' in one sentence'' \<and>
   suffix '' in one sentence'' prompt_3 \<and>
   \<not> sublist ''Trend:'' prompt_3"
proof (intro conjI)
  show "sublist ''132, 329, 583, 743, 966, 1123, 1298'' prompt_3"
    by code_simp
  show "prompt_3 = ''Summarize the trend of the list of numbers '' @
     join '', '' (map decimal [132, 329, 583, 743, 966, 1123, 1298]) @ '' in one sentence''"
    by (simp add: prompt_3_def decimal.simps)
  show "suffix '' in one sentence'' prompt_3"
    by code_simp
  show "\<not> sublist ''Trend:'' prompt_3"
    by code_simp
qed

text \<open>
  C4 as stated fails: the prompt of cell 3 does not end with the label "Trend:", be it
  bare, followed by a space, or followed by a space and a newline.
\<close>

theorem zero_example_prompt_counterexample:
  "\<not> suffix ''Trend:'' prompt_3 \<and> \<not> suffix ''Trend: '' prompt_3 \<and>
   \<not> suffix (''Trend: '' @ nl) prompt_3"
  by code_simp

text \<open>
  C6. The prompt of cell 8 shows three examples and the target series
  55, 54, 57, 5643, 56, 55, 54 with day letters. Its last two lines are the target
  line and the open label; on the target line, as on the line of each example, the
  letters M, T, W, T, F, S, S stand in this order, each immediately before the number
  of its day (letter, colon, space, number), the pairs separated by a comma and a
  space.
\<close>

theorem day_labelled_prompt:
  "prompt_8 =
     ''Summarize the trend of the daily list of numbers in one sentence'' @ nl @
     nl @
     ''Numbers: '' @ day_labelled_series [132, 329, 583, 743, 966, 1123, 1298] @ nl @
     ''Trend: The numbers increase steadily from just over 100 on Monday to almost 1300 on Sunday.'' @ nl @
     nl @
     ''Numbers: '' @ day_labelled_series [300, 323, 293, 313, 341, 301, 329] @ nl @
     ''Trend: The numbers fluctuate between 293 and 341 all week.'' @ nl @
     nl @
     ''Numbers: '' @ day_labelled_series [7, 8, 11, 9, 218, 8, 8] @ nl @
     ''Trend: The numbers fluctuate between 7 and 11 all week, wih one outlier at 218 on Friday.'' @ nl @
     nl @
     ''Numbers: '' @ day_labelled_series [55, 54, 57, 5643, 56, 55, 54] @ nl @
     ''Trend: '' @ nl"
  by (simp add: prompt_8_def day_labelled_series_def day_letters_def labelled_def decimal.simps)

text \<open>
  C10. Every prompt with examples (cells 4 to 9) ends with "Trend: " and one newline:
  the label, one space, the line break. So no such prompt ends right after the colon.
\<close>

theorem few_shot_prompt_ending:
  "r \<in> set [request_4, request_5, request_6, request_7, request_8, request_9] \<Longrightarrow>
   suffix (''Trend: '' @ nl) (prompt r) \<and> \<not> suffix ''Trend:'' (prompt r)"
proof -
  have "list_all (\<lambda>r. suffix (''Trend: '' @ nl) (prompt r) \<and> \<not> suffix ''Trend:'' (prompt r))
     [request_4, request_5, request_6, request_7, request_8, request_9]"
    by code_simp
  then show "r \<in> set [request_4, request_5, request_6, request_7, request_8, request_9] \<Longrightarrow>
   suffix (''Trend: '' @ nl) (prompt r) \<and> \<not> suffix ''Trend:'' (prompt r)"
    unfolding list_all_iff by blast
qed

theorem few_shot_prompt_ending_witness:
  "request_7 \<in> set [request_4, request_5, request_6, request_7, request_8, request_9] \<and>
   suffix (''Trend: '' @ nl) (prompt request_7) \<and> \<not> suffix ''Trend:'' (prompt request_7)"
proof -
  have m: "request_7 \<in> set [request_4, request_5, request_6, request_7, request_8, request_9]"
    by simp
  show ?thesis using m few_shot_prompt_ending [OF m] by simp
qed

section \<open>One call per cell, and no recovery\<close>

text \<open>
  C8 (as found in the code). Each of the cells 2 to 9 calls
  \<^verbatim>\<open>openai.Completion.create\<close> exactly once, with the request of that cell, whether the
  call succeeds or not; the traffic of the cell is what the library transmits for
  that one call, and the notebook adds no attempt of its own. When the call raises, the
  cell stops with that very exception and the state is as before but for the trace of
  the call: nothing is printed and \<^verbatim>\<open>response\<close> is not rebound. In the cells 3 to 9 a
  response without candidates stops the cell with \<open>IndexError\<close>, again with nothing
  printed; cell 2 prints whatever response it receives. A cell fails in no other way,
  and a cell that fails has printed nothing.
\<close>

theorem single_shot_one_call_no_recovery:
  "1 \<le> i \<Longrightarrow> i < 9 \<Longrightarrow> c = notebook ep str ! i \<Longrightarrow> q = notebook_requests ! (i - 1) \<Longrightarrow>
   sent (snd (c w)) = sent w @ [q] \<and>
   outbound tx w (snd (c w)) = replicate (tx (api_key w) q) q \<and>
   (ep (sent w) (api_key w) q = Inl f \<longrightarrow>
      c w = (Inl (ApiError f), w\<lparr>sent := sent w @ [q]\<rparr>)) \<and>
   (2 \<le> i \<and> ep (sent w) (api_key w) q = Inr r \<and> choices r = [] \<longrightarrow>
      c w = (Inl IndexError, w\<lparr>sent := sent w @ [q], response := Some r\<rparr>)) \<and>
   (i = 1 \<and> ep (sent w) (api_key w) q = Inr r \<longrightarrow>
      c w = (Inr (), w\<lparr>sent := sent w @ [q], response := Some r,
                        stdout := stdout w @ str r @ nl\<rparr>)) \<and>
   (fst (c w) = Inl e \<longrightarrow>
      stdout (snd (c w)) = stdout w \<and>
      ((\<exists>f'. e = ApiError f' \<and> ep (sent w) (api_key w) q = Inl f') \<or>
       2 \<le> i \<and> e = IndexError \<and>
         (\<exists>r'. ep (sent w) (api_key w) q = Inr r' \<and> choices r' = [])))"
proof -
  assume i: "1 \<le> i" "i < 9"
    and c: "c = notebook ep str ! i" and q: "q = notebook_requests ! (i - 1)"
  from i have "i \<in> {1, 2, 3, 4, 5, 6, 7, 8}" by auto
  then consider (smoke) "i = 1" "c = cell2 ep str" "q = request_2"
    | (trend) "2 \<le> i" "c = trend_cell ep q"
    using c q
    by (elim insertE emptyE)
      (simp_all add: notebook_def notebook_requests_def
        cell3_def cell4_def cell5_def cell6_def cell7_def cell8_def cell9_def)
  then show ?thesis
  proof cases
    case smoke
    with cell2_cases [of ep str w tx f r e] show ?thesis by simp
  next
    case trend
    with trend_cell_cases [of ep q w tx f r e] show ?thesis by auto
  qed
qed


theorem single_shot_one_call_no_recovery_witness:
  "(1::nat) \<le> 2 \<and> (2::nat) < 9 \<and>
   notebook_requests ! (2 - 1) = request_3 \<and>
   notebook (failing_endpoint RateLimit) (\<lambda>_. []) ! 2 = cell3 (failing_endpoint RateLimit) \<and>
   failing_endpoint RateLimit (sent bare_world) (api_key bare_world) request_3 = Inl RateLimit \<and>
   cell3 (failing_endpoint RateLimit) bare_world =
     (Inl (ApiError RateLimit), bare_world\<lparr>sent := [request_3]\<rparr>) \<and>
   notebook empty_endpoint (\<lambda>_. []) ! 2 = cell3 empty_endpoint \<and>
   empty_endpoint (sent bare_world) (api_key bare_world) request_3 =
     Inr (stub_response\<lparr>choices := []\<rparr>) \<and>
   cell3 empty_endpoint bare_world =
     (Inl IndexError,
      bare_world\<lparr>sent := [request_3], response := Some (stub_response\<lparr>choices := []\<rparr>)\<rparr>) \<and>
   stdout (snd (cell3 empty_endpoint bare_world)) = stdout bare_world \<and>
   (1::nat) \<le> 1 \<and> (1::nat) < 9 \<and>
   notebook_requests ! (1 - 1) = request_2 \<and>
   notebook empty_endpoint (\<lambda>_. ''{}'') ! 1 = cell2 empty_endpoint (\<lambda>_. ''{}'') \<and>
   cell2 empty_endpoint (\<lambda>_. ''{}'') bare_world =
     (Inr (),
      bare_world\<lparr>sent := [request_2], response := Some (stub_response\<lparr>choices := []\<rparr>),
                 stdout := ''{}'' @ nl\<rparr>) \<and>
   outbound (\<lambda>_ _. 1) bare_world (snd (cell2 empty_endpoint (\<lambda>_. ''{}'') bare_world)) = [request_2]"
proof -
  have s: "sent bare_world = []" "stdout bare_world = []" "api_key bare_world = None"
    by (simp_all add: bare_world_def)
  have q3: "notebook_requests ! (2 - 1) = request_3" and q2: "notebook_requests ! (1 - 1) = request_2"
    by (simp_all add: notebook_requests_def)
  have n3: "notebook ep str ! 2 = cell3 ep" and n2: "notebook ep str ! 1 = cell2 ep str" for ep str
    by (simp_all add: notebook_def)
  have a: "failing_endpoint RateLimit (sent bare_world) (api_key bare_world) request_3 = Inl RateLimit"
    by (simp add: failing_endpoint_def)
  have b: "empty_endpoint (sent bare_world) (api_key bare_world) req = Inr (stub_response\<lparr>choices := []\<rparr>)"
    for req by (simp add: empty_endpoint_def)
  have e: "choices (stub_response\<lparr>choices := []\<rparr>) = []" by simp
  have l: "(1::nat) \<le> 2" "(2::nat) < 9" "(1::nat) \<le> 1" "(1::nat) < 9" by simp_all
  have l2: "(2::nat) \<le> 2" by simp
  note A = single_shot_one_call_no_recovery [where i = 2 and ep = "failing_endpoint RateLimit" and str = "\<lambda>_. []"
      and w = bare_world and tx = "\<lambda>_ _. 1" and f = RateLimit
      and c = "cell3 (failing_endpoint RateLimit)" and q = request_3,
      OF l(1) l(2) n3 [symmetric] q3 [symmetric]]
  note B = single_shot_one_call_no_recovery [where i = 2 and ep = empty_endpoint and str = "\<lambda>_. []"
      and w = bare_world and tx = "\<lambda>_ _. 1" and r = "stub_response\<lparr>choices := []\<rparr>"
      and e = IndexError and c = "cell3 empty_endpoint" and q = request_3,
      OF l(1) l(2) n3 [symmetric] q3 [symmetric]]
  note C = single_shot_one_call_no_recovery [where i = 1 and ep = empty_endpoint and str = "\<lambda>_. ''{}''"
      and w = bare_world and tx = "\<lambda>_ _. 1" and r = "stub_response\<lparr>choices := []\<rparr>"
      and c = "cell2 empty_endpoint (\<lambda>_. ''{}'')" and q = request_2,
      OF l(3) l(4) n2 [symmetric] q2 [symmetric]]
  have A': "cell3 (failing_endpoint RateLimit) bare_world =
     (Inl (ApiError RateLimit), bare_world\<lparr>sent := [request_3]\<rparr>)"
    using mp [OF A [THEN conjunct2, THEN conjunct2, THEN conjunct1] a]
    by (simp only: s append_Nil)
  have B': "cell3 empty_endpoint bare_world =
     (Inl IndexError,
      bare_world\<lparr>sent := [request_3], response := Some (stub_response\<lparr>choices := []\<rparr>)\<rparr>)"
    using mp [OF B [THEN conjunct2, THEN conjunct2, THEN conjunct2, THEN conjunct1]
        conjI [OF l2 conjI [OF b e]]]
    by (simp only: s append_Nil)
  have C': "cell2 empty_endpoint (\<lambda>_. ''{}'') bare_world =
     (Inr (),
      bare_world\<lparr>sent := [request_2], response := Some (stub_response\<lparr>choices := []\<rparr>),
                 stdout := ''{}'' @ nl\<rparr>)"
    using mp [OF C [THEN conjunct2, THEN conjunct2, THEN conjunct2, THEN conjunct2, THEN conjunct1]
        conjI [OF refl b]]
    by (simp only: s append_Nil)
  have C'': "outbound (\<lambda>_ _. 1) bare_world (snd (cell2 empty_endpoint (\<lambda>_. ''{}'') bare_world)) = [request_2]"
    using C [THEN conjunct2, THEN conjunct1] by simp
  have B'': "stdout (snd (cell3 empty_endpoint bare_world)) = stdout bare_world"
    by (simp only: B' snd_conv) simp
  show ?thesis
    by (intro conjI l q3 q2 n3 n2 a b A' B' B'' C' C'')
qed



text \<open>
  C8 as stated fails. In a process without a credential, with a library that
  transmits nothing in that case and raises, the call of cell 3 puts no request on the
  wire; with a library that transmits every request twice, one call of cell 3 puts
  two on the wire. And cell 2 does not fail on a response without candidates: it
  completes.
\<close>

theorem single_shot_outbound_counterexample:
  "cell3 keyed_endpoint bare_world =
     (Inl (ApiError Authentication), bare_world\<lparr>sent := [request_3]\<rparr>) \<and>
   outbound key_checking_transmissions bare_world (snd (cell3 keyed_endpoint bare_world)) = [] \<and>
   outbound (\<lambda>_ _. 2) bare_world (snd (cell3 stub_endpoint bare_world)) = [request_3, request_3] \<and>
   fst (cell2 empty_endpoint (\<lambda>_. []) bare_world) = Inr ()"
  by (simp add: cell3_def trend_cell_def cell2_def Completion_create_def keyed_endpoint_def
      bare_world_def outbound_def key_checking_transmissions_def stub_endpoint_def
      empty_endpoint_def result_extractor_def stub_response_def print_def numeral_2_eq_2)



text \<open>
  C9. Every request the notebook sends in a run, from any state and against any
  service, names the engine "text-davinci-002" and the temperature 0; its maximum
  length is 6 tokens if it is the smoke-test request of cell 2 and 36 tokens
  otherwise, that is for every request that asks for a trend.
\<close>

theorem request_parameters_fixed:
  "r \<in> set (drop (length (sent w)) (sent (snd (run_all ep str w)))) \<Longrightarrow>
   engine r = ''text-davinci-002'' \<and> temperature r = 0 \<and>
   max_tokens r = (if r = request_2 then 6 else 36)"
proof -
  assume r: "r \<in> set (drop (length (sent w)) (sent (snd (run_all ep str w))))"
  obtain n where "sent (snd (run_all ep str w)) =
     sent w @ take n [request_2, request_3, request_4, request_5, request_6, request_7,
                      request_8, request_9]"
    using run_all_sent by blast
  with r have "r \<in> set (take n [request_2, request_3, request_4, request_5, request_6,
      request_7, request_8, request_9])"
    by simp
  then have "r \<in> set [request_2, request_3, request_4, request_5, request_6, request_7,
      request_8, request_9]"
    by (rule in_set_takeD)
  then show ?thesis by (rule requests_parameters)
qed


theorem request_parameters_fixed_witness:
  "request_2 \<in> set (drop (length (sent bare_world)) (sent (snd (run_all stub_endpoint (\<lambda>_. []) bare_world)))) \<and>
   request_9 \<in> set (drop (length (sent bare_world)) (sent (snd (run_all stub_endpoint (\<lambda>_. []) bare_world)))) \<and>
   engine request_2 = ''text-davinci-002'' \<and> temperature request_2 = 0 \<and> max_tokens request_2 = 6 \<and>
   engine request_9 = ''text-davinci-002'' \<and> temperature request_9 = 0 \<and> max_tokens request_9 = 36"
proof -
  have s: "sent bare_world = []" by (simp add: bare_world_def)
  have m2: "request_2 \<in> set (drop (length (sent bare_world)) (sent (snd (run_all stub_endpoint (\<lambda>_. []) bare_world))))"
    by (simp add: s run_all_stub)
  have m9: "request_9 \<in> set (drop (length (sent bare_world)) (sent (snd (run_all stub_endpoint (\<lambda>_. []) bare_world))))"
    by (simp add: s run_all_stub)
  have ne: "request_9 \<noteq> request_2"
    by (simp add: request_9_def request_2_def)
  from request_parameters_fixed [OF m2] request_parameters_fixed [OF m9] m2 m9 ne show ?thesis by simp
qed


section \<open>The credential\<close>

text \<open>
  C7 (as found in the code). The credential is read from the environment exactly once
  in a run, by cell 1, and stored in \<^verbatim>\<open>openai.api_key\<close>; no later cell reads the
  environment or changes the stored value. Reading never fails: when the variable is
  not set, \<^verbatim>\<open>os.getenv\<close> gives \<^verbatim>\<open>None\<close>, cell 1 completes, and \<^verbatim>\<open>None\<close> is what
  every later call presents to the service.
\<close>

theorem credential_read_once_never_fatal:
  "cell1 w = (Inr (), w\<lparr>env_reads := env_reads w @ [''OPENAI_API_KEY''],
                         api_key := environ w ''OPENAI_API_KEY''\<rparr>) \<and>
   env_reads (snd (run_all ep str w)) = env_reads w @ [''OPENAI_API_KEY''] \<and>
   api_key (snd (run_all ep str w)) = environ w ''OPENAI_API_KEY''"
proof (intro conjI)
  let ?rest = "[cell2 ep str, cell3 ep, cell4 ep, cell5 ep, cell6 ep, cell7 ep, cell8 ep, cell9 ep]"
  let ?w1 = "w\<lparr>env_reads := env_reads w @ [''OPENAI_API_KEY''],
                api_key := environ w ''OPENAI_API_KEY''\<rparr>"
  show "cell1 w = (Inr (), ?w1)" by (rule cell1_eq)
  have run: "run_all ep str w = run_cells ?rest ?w1"
    by (simp add: run_all_def notebook_def cell1_eq)
  have "env_reads (snd (c v)) = env_reads v" if "c \<in> set ?rest" for c v
    using that
    by (auto simp add: cell2_env_reads trend_cell_env_reads
        cell3_def cell4_def cell5_def cell6_def cell7_def cell8_def cell9_def)
  then have "env_reads (snd (run_cells ?rest ?w1)) = env_reads ?w1"
    by (rule run_cells_preserves)
  with run show "env_reads (snd (run_all ep str w)) = env_reads w @ [''OPENAI_API_KEY'']"
    by simp
  have "api_key (snd (c v)) = api_key v" if "c \<in> set ?rest" for c v
    using that
    by (auto simp add: cell2_api_key trend_cell_api_key
        cell3_def cell4_def cell5_def cell6_def cell7_def cell8_def cell9_def)
  then have "api_key (snd (run_cells ?rest ?w1)) = api_key ?w1"
    by (rule run_cells_preserves)
  with run show "api_key (snd (run_all ep str w)) = environ w ''OPENAI_API_KEY''"
    by simp
qed


text \<open>
  C7 as stated fails: in a process without the variable, cell 1 completes with no
  exception and stores \<^verbatim>\<open>None\<close>; against a service that rejects a call without a
  credential, the run fails only at the first call, after the request of cell 2 was
  handed over.
\<close>

theorem missing_credential_counterexample:
  "cell1 bare_world = (Inr (), bare_world\<lparr>env_reads := [''OPENAI_API_KEY'']\<rparr>) \<and>
   api_key (snd (cell1 bare_world)) = None \<and>
   run_all keyed_endpoint (\<lambda>_. []) bare_world =
     (Inl (ApiError Authentication),
      bare_world\<lparr>env_reads := [''OPENAI_API_KEY''], sent := [request_2]\<rparr>)"
  by (simp add: run_all_def notebook_def cell1_eq bare_world_def cell2_def Completion_create_def
      keyed_endpoint_def)


end
